theory Spec2Isabelle
  imports Main "HOL-Library.AList" "HOL-Library.Word"
begin

section \<open>Errors\<close>

text \<open>
  A Go \<open>error\<close> value is modelled by the text its \<open>Error()\<close> method returns;
  \<open>util.Errorf msg\<close> builds such a value.  A nil error is \<open>None\<close> of
  \<open>error option\<close>.
\<close>

datatype error = Errorf string

section \<open>Path scheme: pkg/kp/constants.go\<close>

subsection \<open>The standard library's path.Clean and path.Join\<close>

text \<open>
  \<open>path.Clean\<close> walks over the elements of a path, the maximal runs of bytes
  between slashes.  \<open>split_slash\<close> yields these elements (empty ones included)
  and \<open>join_slash\<close> puts a single slash between elements.
\<close>

fun split_slash :: "string \<Rightarrow> string list" where
  "split_slash [] = [[]]"
| "split_slash (c # cs) =
     (if c = CHR ''/'' then [] # split_slash cs
      else (case split_slash cs of [] \<Rightarrow> [[c]] | e # es \<Rightarrow> (c # e) # es))"

fun join_slash :: "string list \<Rightarrow> string" where
  "join_slash [] = []"
| "join_slash [e] = e"
| "join_slash (e # es) = e @ CHR ''/'' # join_slash es"

text \<open>
  One iteration of the loop of \<open>path.Clean\<close>, on the element \<open>e\<close>, with \<open>out\<close>
  the elements written to the output buffer so far.  The cases are in the order of
  Go's \<open>switch\<close>: an empty element and \<open>.\<close> are skipped; \<open>..\<close> removes the last
  element written when there is one to backtrack over (Go: \<open>out.w > dotdot\<close>, that
  is, the buffer does not end in the leading \<open>..\<close> prefix), is appended when the path
  is not rooted, and is dropped at the root; any other element is appended.
\<close>

definition clean_step :: "bool \<Rightarrow> string list \<Rightarrow> string \<Rightarrow> string list" where
  "clean_step rooted out e =
     (if e = [] then out
      else if e = ''.'' then out
      else if e = ''..'' then
        (if out \<noteq> [] \<and> last out \<noteq> ''..'' then butlast out
         else if \<not> rooted then out @ [''..'']
         else out)
      else out @ [e])"

definition Clean :: "string \<Rightarrow> string" where
  "Clean p =
     (if p = [] then ''.''
      else
        let rooted = (hd p = CHR ''/'');
            out = foldl (clean_step rooted) [] (split_slash p)
        in if rooted then CHR ''/'' # join_slash out
           else if out = [] then ''.''
           else join_slash out)"

text \<open>
  \<open>path.Join\<close> ignores leading empty elements, joins what is left with slashes and
  cleans the result; with nothing left it returns the empty string.
\<close>

definition Join :: "string list \<Rightarrow> string" where
  "Join elem =
     (case dropWhile (\<lambda>e. e = []) elem of
        [] \<Rightarrow> []
      | es \<Rightarrow> Clean (join_slash es))"

subsection \<open>The path functions\<close>

type_synonym PodPrefix = string
type_synonym PodID = string

definition INTENT_TREE :: PodPrefix where
  "INTENT_TREE = ''intent''"

definition REALITY_TREE :: PodPrefix where
  "REALITY_TREE = ''reality''"

definition HOOK_TREE :: PodPrefix where
  "HOOK_TREE = ''hooks''"

definition LOCK_TREE :: string where
  "LOCK_TREE = ''lock''"

definition nodePath :: "PodPrefix \<Rightarrow> string \<Rightarrow> error + string" where
  "nodePath podPrefix nodeName =
     (if podPrefix = HOOK_TREE then Inr (Join [podPrefix, ''''])
      else if nodeName = '''' then
        Inl (Errorf ''nodeName not specified when computing host path'')
      else Inr (Join [podPrefix, nodeName]))"

definition podPath :: "PodPrefix \<Rightarrow> string \<Rightarrow> PodID \<Rightarrow> error + string" where
  "podPath podPrefix nodeName podId =
     (case nodePath podPrefix nodeName of
        Inl err \<Rightarrow> Inl err
      | Inr nodePath' \<Rightarrow>
          if podId = '''' then
            Inl (Errorf ''pod id not specified when computing pod path'')
          else Inr (Join [nodePath', podId]))"

definition PodLockPath :: "PodPrefix \<Rightarrow> string \<Rightarrow> PodID \<Rightarrow> error + string" where
  "PodLockPath podPrefix nodeName podId =
     (case podPath podPrefix nodeName podId of
        Inl err \<Rightarrow> Inl err
      | Inr subPodPath \<Rightarrow> Inr (Join [LOCK_TREE, subPodPath]))"

text \<open>
  A path is plain when every element of it is a name: not empty, not \<open>.\<close> and not
  \<open>..\<close>.  These are the paths that \<open>path.Clean\<close> returns as they are.
\<close>

definition plain_elem :: "string \<Rightarrow> bool" where
  "plain_elem e \<longleftrightarrow> e \<noteq> [] \<and> e \<noteq> ''.'' \<and> e \<noteq> ''..''"

definition plain_path :: "string \<Rightarrow> bool" where
  "plain_path p \<longleftrightarrow> list_all plain_elem (split_slash p)"

section \<open>Status tracker and shutdown of the preparer: bin/p2-preparer\<close>

text \<open>
  The two variables a \<open>watchForErrors\<close> goroutine writes through its pointers.
  \<open>consecutive\<close> is a Go \<open>int\<close> (64 bits on the platforms the preparer runs on):
  \<open>++\<close> wraps around.
\<close>

record tracker =
  consecutive :: "64 word"
  lastError :: "error option"

text \<open>What the \<open>select\<close> receives: an error from \<open>errs\<close> or a token from \<open>successes\<close>.\<close>

datatype event = ErrorEvent error | SuccessEvent

fun select_case :: "tracker \<Rightarrow> event \<Rightarrow> tracker" where
  "select_case s (ErrorEvent err) =
     (let s1 = s\<lparr>lastError := Some err\<rparr>
      in s1\<lparr>consecutive := consecutive s1 + 1\<rparr>)"
| "select_case s SuccessEvent = s\<lparr>consecutive := 0\<rparr>"

text \<open>
  The loop of \<open>watchForErrors\<close> never returns; \<open>watchForErrors evs s\<close> is the state
  of its two variables once it has received the events \<open>evs\<close>, in this order,
  starting from \<open>s\<close>.
\<close>

definition watchForErrors :: "event list \<Rightarrow> tracker \<Rightarrow> tracker" where
  "watchForErrors evs s = foldl select_case s evs"

text \<open>The variables as \<open>statusHandler\<close> declares them: zero and nil.\<close>

definition initial_tracker :: tracker where
  "initial_tracker = \<lparr>consecutive = 0, lastError = None\<rparr>"

record StatusResponse =
  Status :: string
  ConsecutiveHookErrors :: "64 word"
  ConsecutivePodErrors :: "64 word"
  LastHookError :: string
  LastPodError :: string

text \<open>\<open>fmt.Sprintf("%+v", err)\<close> on an error interface value.\<close>

definition Sprintf_v :: "error option \<Rightarrow> string" where
  "Sprintf_v e = (case e of None \<Rightarrow> ''<nil>'' | Some (Errorf msg) \<Rightarrow> msg)"

text \<open>
  The JSON encoder reads a Go string as UTF-8.  \<open>byte\<close> is the value of a byte;
  \<open>first\<close> is the table of \<open>unicode/utf8\<close> on the first byte of an encoding: the
  length of the encoding and the range accepted for its second byte, or nothing for a
  byte that starts no encoding.
\<close>

definition byte :: "char \<Rightarrow> nat" where
  "byte c = of_char c"

definition first :: "char \<Rightarrow> (nat \<times> nat \<times> nat) option" where
  "first s0 =
     (let b = byte s0 in
      if b < 0x80 then Some (1, 0x00, 0x7F)
      else if b < 0xC2 then None
      else if b < 0xE0 then Some (2, 0x80, 0xBF)
      else if b = 0xE0 then Some (3, 0xA0, 0xBF)
      else if b = 0xED then Some (3, 0x80, 0x9F)
      else if b < 0xF0 then Some (3, 0x80, 0xBF)
      else if b = 0xF0 then Some (4, 0x90, 0xBF)
      else if b < 0xF4 then Some (4, 0x80, 0xBF)
      else if b = 0xF4 then Some (4, 0x80, 0x8F)
      else None)"

text \<open>
  \<open>utf8.DecodeRuneInString\<close>, as far as the encoder looks at it: the width of the
  encoding at the head of \<open>s\<close>, or \<open>None\<close> where Go returns \<open>RuneError\<close> with
  width 1 (a byte that starts no encoding, an encoding cut short, a byte out of range).
\<close>

definition DecodeRuneInString :: "string \<Rightarrow> nat option" where
  "DecodeRuneInString s =
     (case s of
        [] \<Rightarrow> None
      | s0 # rest \<Rightarrow>
          (case first s0 of
             None \<Rightarrow> None
           | Some (sz, lo, hi) \<Rightarrow>
               if sz = 1 then Some 1
               else if length s < sz then None
               else if byte (s ! 1) < lo \<or> hi < byte (s ! 1) then None
               else if sz \<le> 2 then Some 2
               else if byte (s ! 2) < 0x80 \<or> 0xBF < byte (s ! 2) then None
               else if sz \<le> 3 then Some 3
               else if byte (s ! 3) < 0x80 \<or> 0xBF < byte (s ! 3) then None
               else Some 4))"

text \<open>
  The string that the JSON text written for a Go string stands for.  The encoder goes
  through the bytes: a byte below \<open>0x80\<close> is written as it is or as an escape of
  itself; otherwise the rune at this place is decoded, and a byte that does not decode
  is written as the escape of U+FFFD (in UTF-8 the bytes EF BF BD), a rune that does
  decode as it is or as an escape of itself.
\<close>

function marshal_string :: "string \<Rightarrow> string" where
  "marshal_string [] = []"
| "marshal_string (b # bs) =
     (if byte b < 0x80 then b # marshal_string bs
      else (case DecodeRuneInString (b # bs) of
              None \<Rightarrow> [CHR 0xEF, CHR 0xBF, CHR 0xBD] @ marshal_string bs
            | Some size' \<Rightarrow> take size' (b # bs) @ marshal_string (drop size' (b # bs))))"
  by pat_completeness auto
termination
proof (relation "measure length")
  show "wf (measure length)" by simp
next
  fix b :: char and bs :: string
  show "(bs, b # bs) \<in> measure length" by simp
next
  fix b :: char and bs :: string
  show "(bs, b # bs) \<in> measure length" by simp
next
  fix b :: char and bs :: string and x2 :: nat
  assume "DecodeRuneInString (b # bs) = Some x2"
  then have "0 < x2"
    by (auto simp: DecodeRuneInString_def split: option.splits if_splits)
  then show "(drop x2 (b # bs), b # bs) \<in> measure length" by (cases x2) simp_all
qed


text \<open>
  A JSON object is kept as its fields, in the order written.  \<open>json.Marshal\<close> of a
  \<open>StatusResponse\<close> writes one field per struct field, in the order of the struct,
  under the name of its tag.  Strings and ints always marshal, so the error result
  never arises.  A string field is kept as the string its JSON text stands for, an
  \<open>int\<close> field as the number it is read as.
\<close>

datatype json = JString string | JNumber int

definition Marshal :: "StatusResponse \<Rightarrow> error + (string \<times> json) list" where
  "Marshal v = Inr
     [(''status'', JString (marshal_string (Status v))),
      (''consecutive_hook_errors'', JNumber (sint (ConsecutiveHookErrors v))),
      (''consecutive_pod_errors'', JNumber (sint (ConsecutivePodErrors v))),
      (''last_hook_error'', JString (marshal_string (LastHookError v))),
      (''last_pod_error'', JString (marshal_string (LastPodError v)))]"

datatype reply_body = JsonLine "(string \<times> json) list" | TextLine string

record http_reply =
  statusCode :: nat
  body :: reply_body

text \<open>
  The handler that \<open>statusHandler\<close> returns, run on a request \<open>r\<close> when the two
  watchers have brought their variables to \<open>mainT\<close> and \<open>hookT\<close>.  Each body is
  written as one line; the reply that could not be marshalled has the code 500.
\<close>

definition statusHandler :: "tracker \<Rightarrow> tracker \<Rightarrow> 'r \<Rightarrow> http_reply" where
  "statusHandler mainT hookT r =
     (let status = ''OK'' in
      case Marshal \<lparr>Status = status,
                    ConsecutiveHookErrors = consecutive hookT,
                    ConsecutivePodErrors = consecutive mainT,
                    LastHookError = Sprintf_v (lastError hookT),
                    LastPodError = Sprintf_v (lastError mainT)\<rparr> of
        Inl err \<Rightarrow>
          \<lparr>statusCode = 500,
           body = TextLine (''{status:'' @ [CHR 0x22] @ ''Unknown (couldn't marshal: ''
                            @ Sprintf_v (Some err) @ '')'' @ [CHR 0x22] @ ''}'')\<rparr>
      | Inr response \<Rightarrow> \<lparr>statusCode = 200, body = JsonLine response\<rparr>)"

text \<open>Reading a field of the JSON object in a reply.\<close>

definition reply_field :: "string \<Rightarrow> http_reply \<Rightarrow> json option" where
  "reply_field name rep =
     (case body rep of JsonLine obj \<Rightarrow> map_of obj name | TextLine t \<Rightarrow> None)"


text \<open>
  \<open>waitForTermination\<close> is a straight line of channel operations, each of which
  blocks until its partner is there.  It is modelled by the sequence of operations it
  performs; \<open>received\<close> is the name of the signal that arrives.
\<close>

datatype channel = signalCh | quitMainUpdate | quitHookUpdate

datatype chan_op = Notify channel | Receive channel | Send channel | Infoln string string

definition waitForTermination :: "string \<Rightarrow> chan_op list" where
  "waitForTermination received =
     [Notify signalCh,
      Receive signalCh,
      Infoln received ''Stopping work'',
      Send quitHookUpdate,
      Send quitMainUpdate,
      Receive quitMainUpdate]"

definition sends_quit :: "channel \<Rightarrow> chan_op list \<Rightarrow> bool" where
  "sends_quit q ops \<longleftrightarrow> Send q \<in> set ops"

text \<open>An acknowledgement is awaited on \<open>q\<close>: a receive on \<open>q\<close> after the send on it.\<close>

definition awaits_ack :: "channel \<Rightarrow> chan_op list \<Rightarrow> bool" where
  "awaits_ack q ops \<longleftrightarrow> Receive q \<in> set (dropWhile (\<lambda>a. a \<noteq> Send q) ops)"

text \<open>
  The operations on the two quit channels among \<open>ops\<close>, in their order; and the
  split of a run at the arrival of the termination signal.
\<close>

definition quit_ops :: "chan_op list \<Rightarrow> chan_op list" where
  "quit_ops ops =
     filter (\<lambda>a. a = Send quitHookUpdate \<or> a = Send quitMainUpdate
               \<or> a = Receive quitHookUpdate \<or> a = Receive quitMainUpdate) ops"

definition before_signal :: "chan_op list \<Rightarrow> chan_op list" where
  "before_signal ops = takeWhile (\<lambda>a. a \<noteq> Receive signalCh) ops"

definition from_signal :: "chan_op list \<Rightarrow> chan_op list" where
  "from_signal ops = dropWhile (\<lambda>a. a \<noteq> Receive signalCh) ops"

section \<open>RC store and its driver: bin/p2-mini-orchestrator\<close>

subsection \<open>The store\<close>

type_synonym ID = string

text \<open>
  Modelled from the spec: the manifest type of pkg/pods is not among the sources; the
  spec has it as an immutable workload description with an identity and a content hash.
\<close>

record Manifest =
  manifest_id :: string
  manifest_sha :: string

text \<open>
  Modelled from the spec: the selector and label-set types of pkg/labels are not among
  the sources; the spec's external representation has the node selector as a string
  expression and the pod labels as a mapping from strings to strings.
\<close>

type_synonym Selector = string
type_synonym LabelSet = "(string \<times> string) list"

text \<open>
  Modelled from the spec: the record type \<open>fields.RC\<close> of pkg/rc/fields is not
  among the sources; the fields are those of the spec's data model, with the replica
  count a non-negative integer.
\<close>

record RC =
  ID :: ID
  Manifest :: Manifest
  NodeSelector :: Selector
  PodLabels :: LabelSet
  Disabled :: bool
  ReplicasDesired :: nat

text \<open>
  Modelled from the spec: the errors of the store that do not come from connectivity,
  a missing id and a delete refused because replicas are still desired.
\<close>

datatype store_error = NotFound | Conflict

text \<open>
  Modelled from the spec: pkg/kp/rcstore is not among the sources.  This is the
  in-memory store of the spec (the one \<open>rcstore.NewFake()\<close> builds in the driver):
  the persisted records, keyed by id.  Nothing is transient in memory, so no operation
  ends in a store error and the retry policy has nothing to retry.  Every operation
  returns its result together with the store it leaves behind.
\<close>

type_synonym Store = "(ID \<times> RC) list"

text \<open>
  Modelled from the spec: \<open>Create\<close> allocates a fresh unique id.  The id chosen
  here is longer than every id in the store, hence not one of them.
\<close>

definition fresh_id :: "Store \<Rightarrow> ID" where
  "fresh_id store = replicate (Suc (foldr max (map (length \<circ> fst) store) 0)) CHR ''r''"

text \<open>
  Modelled from the spec: \<open>Create\<close> persists a record under a fresh id with no
  replicas desired and not disabled, and returns it.
\<close>

definition Create ::
  "Store \<Rightarrow> Manifest \<Rightarrow> Selector \<Rightarrow> LabelSet \<Rightarrow> (store_error + RC) \<times> Store" where
  "Create store manifest nodeSelector podLabels =
     (let rc = \<lparr>ID = fresh_id store, Manifest = manifest, NodeSelector = nodeSelector,
                PodLabels = podLabels, Disabled = False, ReplicasDesired = 0\<rparr>
      in (Inr rc, AList.update (ID rc) rc store))"

text \<open>Modelled from the spec: \<open>Get\<close> fails with not-found when the id does not exist.\<close>

definition Get :: "Store \<Rightarrow> ID \<Rightarrow> (store_error + RC) \<times> Store" where
  "Get store id' =
     (case map_of store id' of
        None \<Rightarrow> (Inl NotFound, store)
      | Some rc \<Rightarrow> (Inr rc, store))"

text \<open>Modelled from the spec: \<open>List\<close> returns every record persisted.\<close>

definition List :: "Store \<Rightarrow> (store_error + RC list) \<times> Store" where
  "List store = (Inr (map snd store), store)"

text \<open>
  Modelled from the spec: \<open>SetDesiredReplicas\<close> fails with not-found when the id
  does not exist and otherwise stores the count.
\<close>

definition SetDesiredReplicas :: "Store \<Rightarrow> ID \<Rightarrow> nat \<Rightarrow> (store_error + unit) \<times> Store" where
  "SetDesiredReplicas store id' n =
     (case map_of store id' of
        None \<Rightarrow> (Inl NotFound, store)
      | Some rc \<Rightarrow> (Inr (), AList.update id' (rc\<lparr>ReplicasDesired := n\<rparr>) store))"

text \<open>
  Modelled from the spec: \<open>Disable\<close> fails with not-found when the id does not
  exist and otherwise sets the disabled flag.
\<close>

definition Disable :: "Store \<Rightarrow> ID \<Rightarrow> (store_error + unit) \<times> Store" where
  "Disable store id' =
     (case map_of store id' of
        None \<Rightarrow> (Inl NotFound, store)
      | Some rc \<Rightarrow> (Inr (), AList.update id' (rc\<lparr>Disabled := True\<rparr>) store))"

text \<open>
  Modelled from the spec: \<open>Delete\<close> fails with not-found when the id does not
  exist, with a conflict when replicas are still desired, and otherwise removes the
  record.
\<close>

definition Delete :: "Store \<Rightarrow> ID \<Rightarrow> (store_error + unit) \<times> Store" where
  "Delete store id' =
     (case map_of store id' of
        None \<Rightarrow> (Inl NotFound, store)
      | Some rc \<Rightarrow>
          if ReplicasDesired rc > 0 then (Inl Conflict, store)
          else (Inr (), AList.delete id' store))"

subsection \<open>The driver's checks\<close>

text \<open>\<open>tryMatch\<close> logs a mismatch and counts it; the log line is left out.\<close>

definition tryMatch :: "string \<Rightarrow> string \<Rightarrow> string \<Rightarrow> int" where
  "tryMatch a b desc = (if a = b then 0 else 1)"

text \<open>
  \<open>checkFieldsSame\<close> compares the selectors and the label sets through their
  \<open>String()\<close> methods, which belong to pkg/labels and are parameters here.
\<close>

definition checkFieldsSame ::
  "(Selector \<Rightarrow> string) \<Rightarrow> (LabelSet \<Rightarrow> string) \<Rightarrow> RC \<Rightarrow> RC \<Rightarrow> int" where
  "checkFieldsSame selectorString labelsString a b =
     (let mismatches = 0;
          mismatches = mismatches + tryMatch (ID a) (ID b) ''RC ID'';
          mismatches = mismatches
            + tryMatch (manifest_id (Manifest a)) (manifest_id (Manifest b)) ''Manifest ID'';
          mismatches = mismatches
            + tryMatch (selectorString (NodeSelector a)) (selectorString (NodeSelector b))
                ''Node Selector'';
          mismatches = mismatches
            + tryMatch (labelsString (PodLabels a)) (labelsString (PodLabels b))
                ''Node Selector'';
          mismatches = (if Disabled a \<noteq> Disabled b then mismatches + 1 else mismatches);
          mismatches =
            (if ReplicasDesired a \<noteq> ReplicasDesired b then mismatches + 1 else mismatches)
      in mismatches)"

text \<open>
  The body of the loop of \<open>makeRcFields\<close> for one store.  Every \<open>log.Fatalf\<close>
  ends the run with its message (\<open>Inl\<close>); the run that reaches the end of the body
  yields the record kept in \<open>rcs[i]\<close>.
\<close>

definition makeRcFields_store ::
  "(Selector \<Rightarrow> string) \<Rightarrow> (LabelSet \<Rightarrow> string) \<Rightarrow> Store \<Rightarrow> Manifest \<Rightarrow> Selector
     \<Rightarrow> LabelSet \<Rightarrow> (string + RC) \<times> Store" where
  "makeRcFields_store selectorString labelsString store manifest nodeSelector podLabels =
     (case SetDesiredReplicas store ''BOGUSBOGUS'' 1 of
        (Inr u, s1) \<Rightarrow> (Inl ''Should have errored setting a nonexistent ID'', s1)
      | (Inl err, s1) \<Rightarrow>
     (case Disable s1 ''BOGUSBOGUS'' of
        (Inr u, s2) \<Rightarrow> (Inl ''Should have errored disabling a nonexistent ID'', s2)
      | (Inl err, s2) \<Rightarrow>
     (case Delete s2 ''BOGUSBOGUS'' of
        (Inr u, s3) \<Rightarrow> (Inl ''Should have errored deleting a nonexistent ID'', s3)
      | (Inl err, s3) \<Rightarrow>
     (case Create s3 manifest nodeSelector podLabels of
        (Inl err, s4) \<Rightarrow>
          (Inl ''Couldn't create to-be-deleted replication controller'', s4)
      | (Inr fields', s4) \<Rightarrow>
     (case Delete s4 (ID fields') of
        (Inl err, s5) \<Rightarrow> (Inl ''Couldn't delete replication controller'', s5)
      | (Inr u, s5) \<Rightarrow>
     (case Create s5 manifest nodeSelector podLabels of
        (Inl err, s6) \<Rightarrow>
          (Inl ''Couldn't create to-be-returned replication controller'', s6)
      | (Inr fields', s6) \<Rightarrow>
     (case Get s6 (ID fields') of
        (Inl err, s7) \<Rightarrow> (Inl ''Couldn't get replication controller'', s7)
      | (Inr check, s7) \<Rightarrow>
          if checkFieldsSame selectorString labelsString fields' check \<noteq> 0 then
            (Inl ''Mismatch of controller'', s7)
          else
     (case List s7 of
        (Inl err, s8) \<Rightarrow> (Inl ''Couldn't list'', s8)
      | (Inr listeds, s8) \<Rightarrow>
          if \<not> list_ex (\<lambda>listed. ID listed = ID fields') listeds then
            (Inl ''List of store didn't list the just-created RC!'', s8)
          else (Inr fields', s8)))))))))"

text \<open>A record to run the store on: the hello-world pod with \<open>n\<close> replicas desired.\<close>

definition example_rc :: "nat \<Rightarrow> RC" where
  "example_rc n =
     \<lparr>ID = ''rc1'',
      Manifest = \<lparr>manifest_id = ''helloworld'', manifest_sha = ''0a1b2c''\<rparr>,
      NodeSelector = ''app=helloworld'',
      PodLabels = [(''mini-orchestrator'', ''true'')],
      Disabled = False,
      ReplicasDesired = n\<rparr>"

section \<open>Helper lemmas on paths\<close>

lemma split_slash_not_Nil: "split_slash s \<noteq> []"
  by (induction s) (auto split: list.splits)

lemma join_slash_Cons: "es \<noteq> [] \<Longrightarrow> join_slash (e # es) = e @ CHR ''/'' # join_slash es"
  by (cases es) simp_all

lemma join_split_slash: "join_slash (split_slash s) = s"
proof (induction s)
  case Nil
  show ?case by simp
next
  case (Cons c cs)
  show ?case
  proof (cases "c = CHR ''/''")
    case True
    with Cons show ?thesis by (simp add: join_slash_Cons split_slash_not_Nil)
  next
    case False
    obtain e es where sp: "split_slash cs = e # es"
      using split_slash_not_Nil [of cs] by (cases "split_slash cs") auto
    from Cons sp have "join_slash (e # es) = cs" by simp
    then have "join_slash ((c # e) # es) = c # cs" by (cases es) auto
    with False sp show ?thesis by simp
  qed
qed

lemma split_slash_append:
  "split_slash (a @ CHR ''/'' # b) = split_slash a @ split_slash b"
proof (induction a)
  case Nil
  show ?case by simp
next
  case (Cons c cs)
  obtain e es where sp: "split_slash cs = e # es"
    using split_slash_not_Nil [of cs] by (cases "split_slash cs") auto
  with Cons show ?case by simp
qed

lemma foldl_clean_step_plain:
  "list_all plain_elem es \<Longrightarrow> foldl (clean_step r) out es = out @ es"
  by (induction es arbitrary: out) (simp_all add: clean_step_def plain_elem_def)

lemma plain_path_not_rooted:
  assumes "plain_path p"
  shows "p \<noteq> []" and "hd p \<noteq> CHR ''/''"
proof -
  show ne: "p \<noteq> []" using assms by (auto simp: plain_path_def plain_elem_def)
  then obtain c cs where p: "p = c # cs" by (cases p) auto
  show "hd p \<noteq> CHR ''/''"
  proof
    assume "hd p = CHR ''/''"
    with p have "split_slash p = [] # split_slash cs" by simp
    with assms show False by (simp add: plain_path_def plain_elem_def)
  qed
qed

lemma Clean_plain: "plain_path p \<Longrightarrow> Clean p = p"
  using plain_path_not_rooted [of p] split_slash_not_Nil [of p]
  by (simp add: Clean_def Let_def plain_path_def foldl_clean_step_plain join_split_slash)

lemma plain_path_append:
  "plain_path a \<Longrightarrow> plain_path b \<Longrightarrow> plain_path (a @ CHR ''/'' # b)"
  by (simp add: plain_path_def split_slash_append)

lemma Join_two: "a \<noteq> [] \<Longrightarrow> Join [a, b] = Clean (a @ CHR ''/'' # b)"
  by (simp add: Join_def)

lemma Join_two_plain:
  "plain_path a \<Longrightarrow> plain_path b \<Longrightarrow> Join [a, b] = a @ CHR ''/'' # b"
  using plain_path_not_rooted(1) [of a]
  by (simp add: Join_two Clean_plain plain_path_append)

lemma Join_tree_root: "plain_path t \<Longrightarrow> Join [t, ''''] = t"
proof -
  assume t: "plain_path t"
  then have ne: "t \<noteq> []" and nr: "hd t \<noteq> CHR ''/''"
    by (rule plain_path_not_rooted)+
  have sp: "split_slash (t @ ''/'') = split_slash t @ [[]]"
    by (simp add: split_slash_append)
  have "foldl (clean_step False) [] (split_slash (t @ ''/'')) = split_slash t"
    using t by (simp add: sp plain_path_def foldl_clean_step_plain clean_step_def)
  with ne nr show ?thesis
    using split_slash_not_Nil [of t]
    by (simp add: Join_def Clean_def Let_def join_split_slash)
qed

lemma plain_trees:
  "plain_path INTENT_TREE" "plain_path REALITY_TREE" "plain_path HOOK_TREE"
  "plain_path LOCK_TREE"
  by (simp_all add: plain_path_def plain_elem_def INTENT_TREE_def REALITY_TREE_def
      HOOK_TREE_def LOCK_TREE_def)

section \<open>Helper lemmas on the status tracker\<close>

lemma watchForErrors_snoc:
  "watchForErrors (evs @ [ev]) s = select_case (watchForErrors evs s) ev"
  by (simp add: watchForErrors_def)

lemma watchForErrors_append:
  "watchForErrors (evs @ evs') s = watchForErrors evs' (watchForErrors evs s)"
  by (simp add: watchForErrors_def)

lemma sint_succ_64:
  fixes w :: "64 word"
  assumes "sint w < 2 ^ 63 - 1"
  shows "sint (w + 1) = sint w + 1"
proof -
  have lo: "- (2 ^ 63) \<le> sint w" using sint_greater_eq [of w] by simp
  have "sint (w + 1) = signed_take_bit 63 (sint w + 1)"
    by (simp add: sint_word_ariths)
  also have "\<dots> = sint w + 1"
    using lo assms by (intro signed_take_bit_int_eq_self) simp_all
  finally show ?thesis .
qed

lemma watchForErrors_errors_only:
  "consecutive (watchForErrors (map ErrorEvent errs) s) = consecutive s + of_nat (length errs)"
  by (induction errs arbitrary: s) (simp_all add: watchForErrors_def Let_def)





lemma marshal_string_invalid_byte:
  "marshal_string [CHR ''b'', CHR ''a'', CHR ''d'', CHR 0xFF, CHR ''b'']
     = [CHR ''b'', CHR ''a'', CHR ''d'', CHR 0xEF, CHR 0xBF, CHR 0xBD, CHR ''b'']"
  by (simp add: byte_def DecodeRuneInString_def first_def)



section \<open>Helper lemmas on the store\<close>

lemma fresh_id_longer: "(k, v) \<in> set store \<Longrightarrow> length k < length (fresh_id store)"
  by (induction store) (auto simp: fresh_id_def)

lemma fresh_id_fresh: "map_of store (fresh_id store) = None"
proof (rule ccontr)
  assume "map_of store (fresh_id store) \<noteq> None"
  then obtain v where "(fresh_id store, v) \<in> set store"
    by (auto dest: map_of_SomeD)
  from fresh_id_longer [OF this] show False by simp
qed

text \<open>The id of a record that \<open>Create\<close> returns was not in the store before.\<close>

lemma Create_allocates_fresh_id:
  "Create store manifest nodeSelector podLabels = (Inr rc, store') \<Longrightarrow> map_of store (ID rc) = None"
  using fresh_id_fresh [of store] by (auto simp: Create_def Let_def)

lemma map_of_Some_listed: "map_of al k = Some v \<Longrightarrow> list_ex (\<lambda>x. ID x = ID v) (map snd al)"
  by (induction al) (auto split: if_splits)

text \<open>
  On a store without the id \<open>BOGUSBOGUS\<close>, the loop body of \<open>makeRcFields\<close>
  passes every one of its checks: no \<open>log.Fatalf\<close> is reached, and the record it
  keeps is in the store, enabled and with no replicas desired.
\<close>

lemma makeRcFields_store_succeeds:
  assumes "map_of store ''BOGUSBOGUS'' = None"
  shows "\<exists>rc store'. makeRcFields_store selectorString labelsString store manifest nodeSelector
           podLabels = (Inr rc, store')
         \<and> map_of store' (ID rc) = Some rc \<and> ReplicasDesired rc = 0 \<and> \<not> Disabled rc"
proof -
  define rc1 where "rc1 = \<lparr>ID = fresh_id store, Manifest = manifest, NodeSelector = nodeSelector,
    PodLabels = podLabels, Disabled = False, ReplicasDesired = 0\<rparr>"
  define s4 where "s4 = AList.update (ID rc1) rc1 store"
  define s5 where "s5 = AList.delete (ID rc1) s4"
  define rc2 where "rc2 = \<lparr>ID = fresh_id s5, Manifest = manifest, NodeSelector = nodeSelector,
    PodLabels = podLabels, Disabled = False, ReplicasDesired = 0\<rparr>"
  define s6 where "s6 = AList.update (ID rc2) rc2 s5"
  have c1: "Create store manifest nodeSelector podLabels = (Inr rc1, s4)"
    by (simp add: Create_def Let_def rc1_def s4_def)
  have d1: "Delete s4 (ID rc1) = (Inr (), s5)"
    by (simp add: Delete_def s4_def s5_def update_conv' rc1_def)
  have c2: "Create s5 manifest nodeSelector podLabels = (Inr rc2, s6)"
    by (simp add: Create_def Let_def rc2_def s6_def)
  have m: "map_of s6 (ID rc2) = Some rc2"
    by (simp add: s6_def update_conv')
  then have g: "Get s6 (ID rc2) = (Inr rc2, s6)"
    by (simp add: Get_def)
  have chk: "checkFieldsSame selectorString labelsString rc2 rc2 = 0"
    by (simp add: checkFieldsSame_def tryMatch_def)
  have l: "list_ex (\<lambda>listed. ID listed = ID rc2) (map snd s6)"
    using m by (rule map_of_Some_listed)
  have "makeRcFields_store selectorString labelsString store manifest nodeSelector podLabels
      = (Inr rc2, s6)"
    using assms l
    by (simp add: makeRcFields_store_def SetDesiredReplicas_def Disable_def
        [where store = store] Delete_def [where store = store] c1 d1 c2 g chk List_def)
  with m show ?thesis by (auto simp: rc2_def)
qed

section \<open>The claims\<close>

subsection \<open>RC store\<close>

text \<open>
  Claim C1.  For a record \<open>rc\<close> stored under \<open>id'\<close>, \<open>Delete\<close> succeeds if and
  only if \<open>ReplicasDesired rc = 0\<close>.  While replicas are desired it fails with the
  conflict error and returns the store as it was; with none desired the record is gone
  afterwards.  As in the driver: after setting a positive count a delete is refused,
  after setting the count to 0 it succeeds.
\<close>

theorem Delete_iff_no_replicas:
  assumes "map_of store id' = Some rc"
  shows "(fst (Delete store id') = Inr () \<longleftrightarrow> ReplicasDesired rc = 0)
    \<and> (0 < ReplicasDesired rc \<longrightarrow> Delete store id' = (Inl Conflict, store))
    \<and> (ReplicasDesired rc = 0 \<longrightarrow>
         Delete store id' = (Inr (), AList.delete id' store)
         \<and> map_of (snd (Delete store id')) id' = None)
    \<and> (0 < n \<longrightarrow>
         fst (Delete (snd (SetDesiredReplicas store id' n)) id') = Inl Conflict)
    \<and> fst (Delete (snd (SetDesiredReplicas store id' 0)) id') = Inr ()"
  using assms
  by (simp add: Delete_def SetDesiredReplicas_def update_conv' delete_conv')

text \<open>
  The theorem at a store holding one record: with two replicas desired the delete is a
  conflict and the store stays; with none desired the delete empties the store.
\<close>

theorem Delete_iff_no_replicas_witness:
  "map_of [(''rc1'', example_rc 2)] ''rc1'' = Some (example_rc 2)
   \<and> 0 < ReplicasDesired (example_rc 2)
   \<and> Delete [(''rc1'', example_rc 2)] ''rc1'' = (Inl Conflict, [(''rc1'', example_rc 2)])
   \<and> fst (Delete (snd (SetDesiredReplicas [(''rc1'', example_rc 2)] ''rc1'' 0)) ''rc1'') = Inr ()
   \<and> map_of [(''rc1'', example_rc 0)] ''rc1'' = Some (example_rc 0)
   \<and> ReplicasDesired (example_rc 0) = 0
   \<and> Delete [(''rc1'', example_rc 0)] ''rc1'' = (Inr (), [])"
proof -
  have h2: "map_of [(''rc1'', example_rc 2)] ''rc1'' = Some (example_rc 2)" by simp
  have h0: "map_of [(''rc1'', example_rc 0)] ''rc1'' = Some (example_rc 0)" by simp
  have r: "0 < ReplicasDesired (example_rc 2)" "ReplicasDesired (example_rc 0) = 0"
    by (simp_all add: example_rc_def)
  from Delete_iff_no_replicas [OF h2, of 1] r
  have a: "Delete [(''rc1'', example_rc 2)] ''rc1'' = (Inl Conflict, [(''rc1'', example_rc 2)])"
    "fst (Delete (snd (SetDesiredReplicas [(''rc1'', example_rc 2)] ''rc1'' 0)) ''rc1'') = Inr ()"
    by simp_all
  from Delete_iff_no_replicas [OF h0, of 1] r
  have b: "Delete [(''rc1'', example_rc 0)] ''rc1'' = (Inr (), [])"
    by (simp add: AList.delete_eq)
  from h2 h0 r a b show ?thesis by simp
qed

text \<open>
  Claim C4.  For an id that is not in the store, \<open>Get\<close>, \<open>SetDesiredReplicas\<close>,
  \<open>Disable\<close> and \<open>Delete\<close> each fail with the not-found error and return the
  store unchanged.
\<close>

theorem missing_id_not_found:
  assumes "map_of store id' = None"
  shows "Get store id' = (Inl NotFound, store)
    \<and> SetDesiredReplicas store id' n = (Inl NotFound, store)
    \<and> Disable store id' = (Inl NotFound, store)
    \<and> Delete store id' = (Inl NotFound, store)"
  using assms by (simp add: Get_def SetDesiredReplicas_def Disable_def Delete_def)

text \<open>The theorem at the driver's id \<open>BOGUSBOGUS\<close>, on a store that holds another record.\<close>

theorem missing_id_not_found_witness:
  "map_of [(''rc1'', example_rc 2)] ''BOGUSBOGUS'' = None
   \<and> Get [(''rc1'', example_rc 2)] ''BOGUSBOGUS'' = (Inl NotFound, [(''rc1'', example_rc 2)])
   \<and> SetDesiredReplicas [(''rc1'', example_rc 2)] ''BOGUSBOGUS'' 1
       = (Inl NotFound, [(''rc1'', example_rc 2)])
   \<and> Disable [(''rc1'', example_rc 2)] ''BOGUSBOGUS'' = (Inl NotFound, [(''rc1'', example_rc 2)])
   \<and> Delete [(''rc1'', example_rc 2)] ''BOGUSBOGUS'' = (Inl NotFound, [(''rc1'', example_rc 2)])"
proof -
  have h: "map_of [(''rc1'', example_rc 2)] ''BOGUSBOGUS'' = None" by simp
  from missing_id_not_found [OF h, of 1] h show ?thesis by simp
qed

text \<open>
  Claim C8.  When \<open>Create\<close> succeeds with the record \<open>created\<close>, a \<open>Get\<close> on its
  id right afterwards succeeds with a record equal to \<open>created\<close> field for field:
  id, manifest identity, node selector, pod labels, disabled flag and replicas
  desired.  The driver's \<open>checkFieldsSame\<close> counts no mismatch between the two.
\<close>

theorem Create_Get_roundtrip:
  assumes "Create store manifest nodeSelector podLabels = (Inr created, store')"
  shows "\<exists>check. Get store' (ID created) = (Inr check, store')
    \<and> ID check = ID created
    \<and> manifest_id (Manifest check) = manifest_id (Manifest created)
    \<and> NodeSelector check = NodeSelector created
    \<and> PodLabels check = PodLabels created
    \<and> Disabled check = Disabled created
    \<and> ReplicasDesired check = ReplicasDesired created
    \<and> check = created
    \<and> checkFieldsSame selectorString labelsString created check = 0"
proof -
  from assms have "map_of store' (ID created) = Some created"
    by (auto simp: Create_def Let_def update_conv')
  then have "Get store' (ID created) = (Inr created, store')"
    by (simp add: Get_def)
  moreover have "checkFieldsSame selectorString labelsString created created = 0"
    by (simp add: checkFieldsSame_def tryMatch_def)
  ultimately show ?thesis by simp
qed

text \<open>
  The theorem at a store holding one record: the new record gets the id \<open>rrrr\<close>,
  and the \<open>Get\<close> returns it.
\<close>

theorem Create_Get_roundtrip_witness:
  "Create [(''rc1'', example_rc 2)] (Manifest (example_rc 0)) ''app=helloworld'' []
     = (Inr ((example_rc 0)\<lparr>ID := ''rrrr'', PodLabels := []\<rparr>),
        [(''rc1'', example_rc 2), (''rrrr'', (example_rc 0)\<lparr>ID := ''rrrr'', PodLabels := []\<rparr>)])
   \<and> Get [(''rc1'', example_rc 2), (''rrrr'', (example_rc 0)\<lparr>ID := ''rrrr'', PodLabels := []\<rparr>)]
        ''rrrr''
     = (Inr ((example_rc 0)\<lparr>ID := ''rrrr'', PodLabels := []\<rparr>),
        [(''rc1'', example_rc 2), (''rrrr'', (example_rc 0)\<lparr>ID := ''rrrr'', PodLabels := []\<rparr>)])
   \<and> checkFieldsSame (\<lambda>s. s) (\<lambda>l. concat (map fst l))
        ((example_rc 0)\<lparr>ID := ''rrrr'', PodLabels := []\<rparr>)
        ((example_rc 0)\<lparr>ID := ''rrrr'', PodLabels := []\<rparr>) = 0"
proof -
  have c: "Create [(''rc1'', example_rc 2)] (Manifest (example_rc 0)) ''app=helloworld'' []
     = (Inr ((example_rc 0)\<lparr>ID := ''rrrr'', PodLabels := []\<rparr>),
        [(''rc1'', example_rc 2), (''rrrr'', (example_rc 0)\<lparr>ID := ''rrrr'', PodLabels := []\<rparr>)])"
    by (simp add: Create_def Let_def fresh_id_def example_rc_def)
  from Create_Get_roundtrip [OF c, of "\<lambda>s. s" "\<lambda>l. concat (map fst l)"] c
  show ?thesis by simp
qed

subsection \<open>Path scheme\<close>

text \<open>
  Claim C2, amended.  On the hooks tree \<open>nodePath\<close> ignores the node name and returns
  the tree root \<open>hooks\<close>, with no error.  On the intent and reality trees it fails,
  with the error that the node name is not specified, exactly when the node name is
  empty; otherwise it returns \<open>path.Join(tree, node)\<close>, the cleaned form of
  \<open>tree/node\<close>, which is \<open>tree/node\<close> itself whenever the node name is plain.
\<close>

theorem nodePath_hooks_intent_reality:
  assumes "tree = INTENT_TREE \<or> tree = REALITY_TREE"
  shows "nodePath HOOK_TREE node = Inr ''hooks''
    \<and> (isl (nodePath tree node) \<longleftrightarrow> node = '''')
    \<and> nodePath tree '''' = Inl (Errorf ''nodeName not specified when computing host path'')
    \<and> (node \<noteq> '''' \<longrightarrow> nodePath tree node = Inr (Clean (tree @ ''/'' @ node)))
    \<and> (plain_path node \<longrightarrow> nodePath tree node = Inr (tree @ ''/'' @ node))"
proof -
  have hooks: "nodePath HOOK_TREE node = Inr ''hooks''"
    using Join_tree_root [OF plain_trees(3)] by (simp add: nodePath_def HOOK_TREE_def)
  from assms have nh: "tree \<noteq> HOOK_TREE" and ne: "tree \<noteq> []" and pt: "plain_path tree"
    using plain_trees by (auto simp: INTENT_TREE_def REALITY_TREE_def HOOK_TREE_def)
  have err: "nodePath tree '''' = Inl (Errorf ''nodeName not specified when computing host path'')"
    using nh by (simp add: nodePath_def)
  have ok: "nodePath tree node = Inr (Clean (tree @ ''/'' @ node))" if "node \<noteq> ''''"
    using nh ne that by (simp add: nodePath_def Join_two)
  have plain: "nodePath tree node = Inr (tree @ ''/'' @ node)" if "plain_path node"
    using ok [OF plain_path_not_rooted(1) [OF that]] Clean_plain [OF plain_path_append [OF pt that]]
    by simp
  have "isl (nodePath tree node) \<longleftrightarrow> node = ''''"
    using err ok by (cases "node = ''''") auto
  with hooks err ok plain show ?thesis by blast
qed

text \<open>The theorem on the intent tree at the node \<open>node1\<close>.\<close>

theorem nodePath_hooks_intent_reality_witness:
  "plain_path ''node1''
    \<and> nodePath HOOK_TREE ''node1'' = Inr ''hooks''
    \<and> \<not> isl (nodePath INTENT_TREE ''node1'')
    \<and> nodePath INTENT_TREE '''' = Inl (Errorf ''nodeName not specified when computing host path'')
    \<and> nodePath INTENT_TREE ''node1'' = Inr ''intent/node1''"
proof -
  have p: "plain_path ''node1''" by (simp add: plain_path_def plain_elem_def)
  have "INTENT_TREE = INTENT_TREE \<or> INTENT_TREE = REALITY_TREE" by simp
  from nodePath_hooks_intent_reality [OF this, of "''node1''"] p
  show ?thesis by (simp add: INTENT_TREE_def Clean_def clean_step_def)
qed

text \<open>
  A node name that is not plain: with a slash at its end, the path returned is not
  \<open>tree/node\<close>.
\<close>

theorem nodePath_unclean_counterexample:
  "''node1/'' \<noteq> '''' \<and> nodePath INTENT_TREE ''node1/'' = Inr ''intent/node1''
   \<and> nodePath INTENT_TREE ''node1/'' \<noteq> Inr (INTENT_TREE @ ''/'' @ ''node1/'')"
  by (simp add: nodePath_def INTENT_TREE_def HOOK_TREE_def Join_def Clean_def clean_step_def)

text \<open>
  Claim C5, amended.  \<open>podPath\<close> calls \<open>nodePath\<close> first: when that fails,
  \<open>podPath\<close> fails with the same error, whatever the pod id.  When \<open>nodePath\<close>
  succeeds with \<open>p\<close>, an empty pod id gives the error that the pod id is not
  specified, and a pod id that is not empty gives \<open>path.Join(p, podId)\<close>, which is
  \<open>p/podId\<close> whenever \<open>p\<close> and the pod id are plain.
\<close>

theorem podPath_cases:
  "(nodePath tree node = Inl e \<longrightarrow> podPath tree node podId = Inl e)
   \<and> (nodePath tree node = Inr p \<and> podId = '''' \<longrightarrow>
        podPath tree node podId = Inl (Errorf ''pod id not specified when computing pod path''))
   \<and> (nodePath tree node = Inr p \<and> podId \<noteq> '''' \<longrightarrow>
        podPath tree node podId = Inr (Join [p, podId]))
   \<and> (nodePath tree node = Inr p \<and> plain_path p \<and> plain_path podId \<longrightarrow>
        podPath tree node podId = Inr (p @ ''/'' @ podId))"
proof -
  have "podPath tree node podId = Inr (p @ ''/'' @ podId)"
    if "nodePath tree node = Inr p" "plain_path p" "plain_path podId"
    using that plain_path_not_rooted(1) [of podId] Join_two_plain [of p podId]
    by (simp add: podPath_def)
  then show ?thesis by (auto simp: podPath_def)
qed

text \<open>
  The theorem at four inputs, one for each of its cases: no node name, no pod id, a
  node and a pod on the intent tree, and a pod on the hooks tree.
\<close>

theorem podPath_cases_witness:
  "nodePath INTENT_TREE '''' = Inl (Errorf ''nodeName not specified when computing host path'')
   \<and> podPath INTENT_TREE '''' ''pod1'' = Inl (Errorf ''nodeName not specified when computing host path'')
   \<and> nodePath INTENT_TREE ''node1'' = Inr ''intent/node1''
   \<and> podPath INTENT_TREE ''node1'' '''' = Inl (Errorf ''pod id not specified when computing pod path'')
   \<and> plain_path ''intent/node1'' \<and> plain_path ''pod1''
   \<and> podPath INTENT_TREE ''node1'' ''pod1'' = Inr ''intent/node1/pod1''
   \<and> podPath HOOK_TREE ''node1'' ''pod1'' = Inr ''hooks/pod1''"
proof -
  have n0: "nodePath INTENT_TREE '''' = Inl (Errorf ''nodeName not specified when computing host path'')"
    by (simp add: nodePath_def INTENT_TREE_def HOOK_TREE_def)
  have n1: "nodePath INTENT_TREE ''node1'' = Inr ''intent/node1''"
    by (simp add: nodePath_def INTENT_TREE_def HOOK_TREE_def Join_def Clean_def clean_step_def)
  have n2: "nodePath HOOK_TREE ''node1'' = Inr ''hooks''"
    by (simp add: nodePath_def HOOK_TREE_def Join_def Clean_def clean_step_def)
  have pl: "plain_path ''intent/node1''" "plain_path ''pod1''" "plain_path ''hooks''"
    by (simp_all add: plain_path_def plain_elem_def)
  from podPath_cases [of INTENT_TREE "''''" _ "''pod1''" "''''"] n0
  have a: "podPath INTENT_TREE '''' ''pod1'' = Inl (Errorf ''nodeName not specified when computing host path'')"
    by simp
  from podPath_cases [of INTENT_TREE "''node1''" "Errorf ''''" "''''" "''intent/node1''"] n1
  have b: "podPath INTENT_TREE ''node1'' '''' = Inl (Errorf ''pod id not specified when computing pod path'')"
    by simp
  from podPath_cases [of INTENT_TREE "''node1''" "Errorf ''''" "''pod1''" "''intent/node1''"] n1 pl
  have c: "podPath INTENT_TREE ''node1'' ''pod1'' = Inr ''intent/node1/pod1''"
    by (simp add: Join_def Clean_def clean_step_def)
  from podPath_cases [of HOOK_TREE "''node1''" "Errorf ''''" "''pod1''" "''hooks''"] n2 pl
  have d: "podPath HOOK_TREE ''node1'' ''pod1'' = Inr ''hooks/pod1''"
    by (simp add: Join_def Clean_def clean_step_def)
  from n0 n1 pl a b c d show ?thesis by simp
qed

text \<open>
  With neither a node name nor a pod id on the intent tree, the error is the one of
  \<open>nodePath\<close>, not the one about the pod id; and a pod id with a slash at its end
  is cleaned, so that the path returned is not \<open>nodePath/podId\<close>.
\<close>

theorem podPath_counterexample:
  "podPath INTENT_TREE '''' '''' = Inl (Errorf ''nodeName not specified when computing host path'')
   \<and> podPath INTENT_TREE '''' '''' \<noteq> Inl (Errorf ''pod id not specified when computing pod path'')
   \<and> nodePath INTENT_TREE ''node1'' = Inr ''intent/node1''
   \<and> podPath INTENT_TREE ''node1'' ''pod1/'' = Inr ''intent/node1/pod1''
   \<and> podPath INTENT_TREE ''node1'' ''pod1/'' \<noteq> Inr (''intent/node1'' @ ''/'' @ ''pod1/'')"
  by (simp add: podPath_def nodePath_def INTENT_TREE_def HOOK_TREE_def Join_def Clean_def
      clean_step_def)

text \<open>
  Claim C6, amended.  When \<open>podPath\<close> fails, \<open>PodLockPath\<close> fails with the same
  error.  When \<open>podPath\<close> succeeds with \<open>p\<close>, \<open>PodLockPath\<close> succeeds with
  \<open>path.Join(lock, p)\<close>, which is \<open>lock/p\<close> whenever \<open>p\<close> is plain; so, on the
  intent and reality trees, a plain node name and a plain pod id give
  \<open>lock/tree/node/podId\<close>.
\<close>

theorem PodLockPath_cases:
  "(podPath tree node podId = Inl e \<longrightarrow> PodLockPath tree node podId = Inl e)
   \<and> (podPath tree node podId = Inr p \<longrightarrow>
        PodLockPath tree node podId = Inr (Join [LOCK_TREE, p]))
   \<and> (podPath tree node podId = Inr p \<and> plain_path p \<longrightarrow>
        PodLockPath tree node podId = Inr (''lock/'' @ p))
   \<and> ((tree = INTENT_TREE \<or> tree = REALITY_TREE) \<and> plain_path node \<and> plain_path podId \<longrightarrow>
        PodLockPath tree node podId = Inr (''lock/'' @ tree @ ''/'' @ node @ ''/'' @ podId))"
proof -
  have lock: "PodLockPath tree node podId = Inr (''lock/'' @ q)"
    if "podPath tree node podId = Inr q" "plain_path q" for q
    using that Join_two_plain [OF plain_trees(4), of q]
    by (simp add: PodLockPath_def LOCK_TREE_def)
  have full: "PodLockPath tree node podId = Inr (''lock/'' @ tree @ ''/'' @ node @ ''/'' @ podId)"
    if t: "tree = INTENT_TREE \<or> tree = REALITY_TREE" and n: "plain_path node"
      and i: "plain_path podId"
  proof -
    from t have nh: "tree \<noteq> HOOK_TREE" and pt: "plain_path tree"
      using plain_trees by (auto simp: INTENT_TREE_def REALITY_TREE_def HOOK_TREE_def)
    have pn: "plain_path (tree @ ''/'' @ node)"
      using plain_path_append [OF pt n] by simp
    have np: "nodePath tree node = Inr (tree @ ''/'' @ node)"
      using nh plain_path_not_rooted(1) [OF n] Join_two_plain [OF pt n]
      by (simp add: nodePath_def)
    have pp: "podPath tree node podId = Inr ((tree @ ''/'' @ node) @ ''/'' @ podId)"
      using np plain_path_not_rooted(1) [OF i] Join_two_plain [OF pn i]
      by (simp add: podPath_def)
    have "plain_path ((tree @ ''/'' @ node) @ ''/'' @ podId)"
      using plain_path_append [OF pn i] by simp
    from lock [OF pp this] show ?thesis by simp
  qed
  from lock full show ?thesis
    by (auto simp: PodLockPath_def)
qed

text \<open>The theorem at a pod without an id and at the pod \<open>pod1\<close> of the node \<open>node1\<close>.\<close>

theorem PodLockPath_cases_witness:
  "podPath INTENT_TREE ''node1'' '''' = Inl (Errorf ''pod id not specified when computing pod path'')
   \<and> PodLockPath INTENT_TREE ''node1'' '''' = Inl (Errorf ''pod id not specified when computing pod path'')
   \<and> podPath INTENT_TREE ''node1'' ''pod1'' = Inr ''intent/node1/pod1''
   \<and> plain_path ''intent/node1/pod1'' \<and> plain_path ''node1'' \<and> plain_path ''pod1''
   \<and> PodLockPath INTENT_TREE ''node1'' ''pod1'' = Inr ''lock/intent/node1/pod1''"
proof -
  have p0: "podPath INTENT_TREE ''node1'' '''' = Inl (Errorf ''pod id not specified when computing pod path'')"
    by (simp add: podPath_def nodePath_def INTENT_TREE_def HOOK_TREE_def)
  have p1: "podPath INTENT_TREE ''node1'' ''pod1'' = Inr ''intent/node1/pod1''"
    by (simp add: podPath_def nodePath_def INTENT_TREE_def HOOK_TREE_def Join_def Clean_def clean_step_def)
  have pl: "plain_path ''intent/node1/pod1''" "plain_path ''node1''" "plain_path ''pod1''"
    by (simp_all add: plain_path_def plain_elem_def)
  from PodLockPath_cases [of INTENT_TREE "''node1''" "''''" _ "''''"] p0
  have a: "PodLockPath INTENT_TREE ''node1'' '''' = Inl (Errorf ''pod id not specified when computing pod path'')"
    by simp
  from PodLockPath_cases [of INTENT_TREE "''node1''" "''pod1''" "Errorf ''''" "''intent/node1/pod1''"] p1 pl
  have b: "PodLockPath INTENT_TREE ''node1'' ''pod1'' = Inr ''lock/intent/node1/pod1''"
    by (simp add: Join_def Clean_def clean_step_def LOCK_TREE_def)
  from p0 p1 pl a b show ?thesis by simp
qed

text \<open>
  A pod path that is not plain: for the node \<open>..\<close> and the pod \<open>..\<close> on the intent
  tree, \<open>podPath\<close> returns \<open>..\<close> and \<open>PodLockPath\<close> returns \<open>.\<close>, not
  \<open>lock/..\<close>.
\<close>

theorem PodLockPath_counterexample:
  "podPath INTENT_TREE ''..'' ''..'' = Inr ''..''
   \<and> PodLockPath INTENT_TREE ''..'' ''..'' = Inr ''.''
   \<and> PodLockPath INTENT_TREE ''..'' ''..'' \<noteq> Inr (''lock/'' @ ''..'')"
  by (simp add: PodLockPath_def podPath_def nodePath_def INTENT_TREE_def HOOK_TREE_def
      LOCK_TREE_def Join_def Clean_def clean_step_def)

subsection \<open>Status tracker\<close>

text \<open>
  Claim C3.  Over any sequence of events, an error event stores that error as the last
  error and adds 1 to the consecutive-error count, and a success event sets the count
  to zero; so the count is 0 after any success event, and after a success followed by
  errors only it is the number of these errors.  The addition is that of a Go
  \<open>int\<close>: below the largest \<open>int\<close> the count read as a number grows by exactly 1.
\<close>

theorem watchForErrors_transitions:
  "watchForErrors (evs @ [ErrorEvent err]) s =
     (watchForErrors evs s)\<lparr>lastError := Some err,
                            consecutive := consecutive (watchForErrors evs s) + 1\<rparr>
   \<and> watchForErrors (evs @ [SuccessEvent]) s = (watchForErrors evs s)\<lparr>consecutive := 0\<rparr>
   \<and> consecutive (watchForErrors (evs @ [SuccessEvent]) s) = 0
   \<and> consecutive (watchForErrors (evs @ SuccessEvent # map ErrorEvent errs) s)
       = of_nat (length errs)
   \<and> (sint (consecutive (watchForErrors evs s)) < 2 ^ 63 - 1 \<longrightarrow>
        sint (consecutive (watchForErrors (evs @ [ErrorEvent err]) s))
          = sint (consecutive (watchForErrors evs s)) + 1)"
proof -
  have "watchForErrors (evs @ SuccessEvent # map ErrorEvent errs) s
      = watchForErrors (map ErrorEvent errs) (watchForErrors (evs @ [SuccessEvent]) s)"
    using watchForErrors_append [of "evs @ [SuccessEvent]" "map ErrorEvent errs" s] by simp
  then have "consecutive (watchForErrors (evs @ SuccessEvent # map ErrorEvent errs) s)
      = of_nat (length errs)"
    by (simp add: watchForErrors_errors_only watchForErrors_snoc)
  then show ?thesis
    by (simp add: watchForErrors_snoc Let_def sint_succ_64)
qed

text \<open>The theorem after one error, followed by a second error or by a success.\<close>

theorem watchForErrors_transitions_witness:
  "sint (consecutive (watchForErrors [ErrorEvent (Errorf ''a'')] initial_tracker)) < 2 ^ 63 - 1
   \<and> watchForErrors ([ErrorEvent (Errorf ''a'')] @ [ErrorEvent (Errorf ''b'')]) initial_tracker
       = \<lparr>consecutive = 2, lastError = Some (Errorf ''b'')\<rparr>
   \<and> watchForErrors ([ErrorEvent (Errorf ''a'')] @ [SuccessEvent]) initial_tracker
       = \<lparr>consecutive = 0, lastError = Some (Errorf ''a'')\<rparr>
   \<and> sint (consecutive (watchForErrors ([ErrorEvent (Errorf ''a'')] @ [ErrorEvent (Errorf ''b'')])
        initial_tracker)) = 2"
proof -
  have s1: "watchForErrors [ErrorEvent (Errorf ''a'')] initial_tracker
      = \<lparr>consecutive = 1, lastError = Some (Errorf ''a'')\<rparr>"
    by (simp add: watchForErrors_def initial_tracker_def Let_def)
  from watchForErrors_transitions [of "[ErrorEvent (Errorf ''a'')]" "Errorf ''b''" initial_tracker "[]"]
  show ?thesis unfolding s1 by simp
qed

text \<open>
  Claim C9.  Whatever the request and whatever events the two watchers have received,
  the handler answers with a JSON object whose \<open>status\<close> field is the string \<open>OK\<close>.
  The counters and the last errors are in the four other fields only, each in its own.
\<close>

theorem statusHandler_status_OK:
  "reply_field ''status''
     (statusHandler (watchForErrors mainEvents initial_tracker)
                    (watchForErrors hookEvents initial_tracker) r) = Some (JString ''OK'')
   \<and> reply_field ''status'' (statusHandler mainT hookT r) = Some (JString ''OK'')
   \<and> statusCode (statusHandler mainT hookT r) = 200
   \<and> reply_field ''consecutive_pod_errors'' (statusHandler mainT hookT r)
       = Some (JNumber (sint (consecutive mainT)))
   \<and> reply_field ''consecutive_hook_errors'' (statusHandler mainT hookT r)
       = Some (JNumber (sint (consecutive hookT)))
   \<and> reply_field ''last_pod_error'' (statusHandler mainT hookT r)
       = Some (JString (marshal_string (Sprintf_v (lastError mainT))))
   \<and> reply_field ''last_hook_error'' (statusHandler mainT hookT r)
       = Some (JString (marshal_string (Sprintf_v (lastError hookT))))"
  by (simp add: statusHandler_def Marshal_def reply_field_def byte_def)



subsection \<open>Shutdown\<close>

text \<open>
  Claim C7, amended.  \<open>waitForTermination\<close> touches no quit channel before the
  termination signal has arrived.  Once it has, the operations on the quit channels
  are exactly these, in this order: a quit sent to the hook watch loop, a quit sent to
  the main watch loop, and an acknowledgement received from the main watch loop, which
  is the last thing the function does.  So a quit goes to both loops, and an
  acknowledgement is awaited from the main watch loop only, none from the hook watch
  loop.
\<close>

theorem waitForTermination_quits:
  "Receive signalCh \<in> set (waitForTermination received)
   \<and> quit_ops (before_signal (waitForTermination received)) = []
   \<and> quit_ops (from_signal (waitForTermination received))
       = [Send quitHookUpdate, Send quitMainUpdate, Receive quitMainUpdate]
   \<and> before_signal (waitForTermination received) @ from_signal (waitForTermination received)
       = waitForTermination received
   \<and> sends_quit quitHookUpdate (waitForTermination received)
   \<and> sends_quit quitMainUpdate (waitForTermination received)
   \<and> awaits_ack quitMainUpdate (waitForTermination received)
   \<and> \<not> awaits_ack quitHookUpdate (waitForTermination received)
   \<and> Receive quitHookUpdate \<notin> set (waitForTermination received)
   \<and> last (waitForTermination received) = Receive quitMainUpdate"
  by (simp add: sends_quit_def awaits_ack_def waitForTermination_def quit_ops_def
      before_signal_def from_signal_def)

text \<open>On SIGTERM the hook watch loop is sent its quit, and nothing is received from it.\<close>

theorem waitForTermination_hook_ack_counterexample:
  "sends_quit quitHookUpdate (waitForTermination ''terminated'')
   \<and> \<not> awaits_ack quitHookUpdate (waitForTermination ''terminated'')"
  by (simp add: sends_quit_def awaits_ack_def waitForTermination_def)

end
